theory Spec2Isabelle
  imports Main "HOL-Library.AList"
begin

section \<open>Python values, dictionaries and exceptions\<close>

text \<open>
  Session data is what the cookie serializer can carry: scalars, sequences and mappings
  keyed by strings. A Python \<open>dict\<close> is an association list in insertion order with
  one entry for each key.
\<close>

datatype pyval =
    PNone
  | PBool bool
  | PInt int
  | PStr string
  | PList "pyval list"
  | PTuple "pyval list"
  | PDict "(string \<times> pyval) list"

type_synonym pydict = "(string \<times> pyval) list"

datatype error =
    KeyError string
  | AttributeError
  | AssertionError
  | NotImplementedError
  | ConfigurationError

text \<open>The methods of the built-in \<open>dict\<close> that the session dictionary intercepts.\<close>

definition dict_contains :: "pydict \<Rightarrow> string \<Rightarrow> bool" where
  "dict_contains d k = (map_of d k \<noteq> None)"

definition dict_setitem :: "string \<Rightarrow> pyval \<Rightarrow> pydict \<Rightarrow> error + (unit \<times> pydict)" where
  "dict_setitem k v d = Inr ((), AList.update k v d)"

definition dict_delitem :: "string \<Rightarrow> pydict \<Rightarrow> error + (unit \<times> pydict)" where
  "dict_delitem k d =
     (if dict_contains d k then Inr ((), AList.delete k d) else Inl (KeyError k))"

definition dict_clear :: "pydict \<Rightarrow> error + (unit \<times> pydict)" where
  "dict_clear d = Inr ((), [])"

definition dict_pop :: "string \<Rightarrow> pyval option \<Rightarrow> pydict \<Rightarrow> error + (pyval \<times> pydict)" where
  "dict_pop k args d =
     (case map_of d k of
        Some v \<Rightarrow> Inr (v, AList.delete k d)
      | None \<Rightarrow> (case args of Some dflt \<Rightarrow> Inr (dflt, d) | None \<Rightarrow> Inl (KeyError k)))"

text \<open>\<open>popitem\<close> takes the entry that was inserted last.\<close>

definition dict_popitem :: "pydict \<Rightarrow> error + ((string \<times> pyval) \<times> pydict)" where
  "dict_popitem d =
     (case rev d of
        [] \<Rightarrow> Inl (KeyError ''popitem(): dictionary is empty'')
      | kv # _ \<Rightarrow> Inr (kv, butlast d))"

definition dict_setdefault :: "string \<Rightarrow> pyval \<Rightarrow> pydict \<Rightarrow> error + (pyval \<times> pydict)" where
  "dict_setdefault k v d =
     (case map_of d k of
        Some w \<Rightarrow> Inr (w, d)
      | None \<Rightarrow> Inr (v, AList.update k v d))"

definition dict_merge :: "pydict \<Rightarrow> pydict \<Rightarrow> pydict" where
  "dict_merge other d = fold (\<lambda>kv. AList.update (fst kv) (snd kv)) other d"

definition dict_update :: "pydict \<Rightarrow> pydict \<Rightarrow> error + (unit \<times> pydict)" where
  "dict_update other d = Inr ((), dict_merge other d)"

section \<open>SessionDict\<close>

text \<open>
  \<open>class SessionDict(_UpdateDictMixin, dict)\<close> with its slots \<open>container\<close>, \<open>new\<close> and
  \<open>modified\<close>; \<open>items\<close> is the dictionary the object itself is. The back-reference
  \<open>container\<close> is the name of the owning session factory.
\<close>

record SessionDict =
  container :: string
  new :: bool
  modified :: bool
  items :: pydict

text \<open>
  \<open>SessionDict.__init__(container, data=None, new=False)\<close>: the data goes in through
  \<open>dict.update\<close> itself, not through the intercepted method.
\<close>

definition SessionDict_init :: "string \<Rightarrow> pydict option \<Rightarrow> bool \<Rightarrow> SessionDict" where
  "SessionDict_init c data n =
     \<lparr>container = c, new = n, modified = False,
      items = dict_merge (case data of None \<Rightarrow> [] | Some d \<Rightarrow> d) []\<rparr>"

definition on_update :: "SessionDict \<Rightarrow> SessionDict" where
  "on_update s = s\<lparr>modified := True\<rparr>"

text \<open>
  \<open>_UpdateDictMixin.calls_update(name)\<close>: run the method of \<open>dict\<close>, then
  \<open>on_update\<close>, then return the method's value. When the method of \<open>dict\<close> raises,
  the exception leaves \<open>oncall\<close> before \<open>on_update\<close> is reached.
\<close>

definition calls_update ::
  "(pydict \<Rightarrow> error + ('a \<times> pydict)) \<Rightarrow> SessionDict \<Rightarrow> (error + 'a) \<times> SessionDict" where
  "calls_update f s =
     (case f (items s) of
        Inl e \<Rightarrow> (Inl e, s)
      | Inr (rv, d) \<Rightarrow> (Inr rv, on_update (s\<lparr>items := d\<rparr>)))"

definition UpdateDictMixin_setitem ::
  "string \<Rightarrow> pyval \<Rightarrow> SessionDict \<Rightarrow> (error + unit) \<times> SessionDict" where
  "UpdateDictMixin_setitem k v = calls_update (dict_setitem k v)"

definition UpdateDictMixin_delitem ::
  "string \<Rightarrow> SessionDict \<Rightarrow> (error + unit) \<times> SessionDict" where
  "UpdateDictMixin_delitem k = calls_update (dict_delitem k)"

definition UpdateDictMixin_clear :: "SessionDict \<Rightarrow> (error + unit) \<times> SessionDict" where
  "UpdateDictMixin_clear = calls_update dict_clear"

definition UpdateDictMixin_pop ::
  "string \<Rightarrow> pyval option \<Rightarrow> SessionDict \<Rightarrow> (error + pyval) \<times> SessionDict" where
  "UpdateDictMixin_pop k args = calls_update (dict_pop k args)"

definition UpdateDictMixin_popitem ::
  "SessionDict \<Rightarrow> (error + (string \<times> pyval)) \<times> SessionDict" where
  "UpdateDictMixin_popitem = calls_update dict_popitem"

definition UpdateDictMixin_setdefault ::
  "string \<Rightarrow> pyval \<Rightarrow> SessionDict \<Rightarrow> (error + pyval) \<times> SessionDict" where
  "UpdateDictMixin_setdefault k v = calls_update (dict_setdefault k v)"

definition UpdateDictMixin_update ::
  "pydict \<Rightarrow> SessionDict \<Rightarrow> (error + unit) \<times> SessionDict" where
  "UpdateDictMixin_update other = calls_update (dict_update other)"

text \<open>
  \<open>SessionDict.pop(key, *args)\<close>: the intercepted \<open>pop\<close> runs only for a key that is
  in the dictionary; otherwise the default is returned, or \<open>KeyError\<close> raised, with the
  object untouched. \<open>args\<close> is the optional default.
\<close>

definition SessionDict_pop ::
  "string \<Rightarrow> pyval option \<Rightarrow> SessionDict \<Rightarrow> (error + pyval) \<times> SessionDict" where
  "SessionDict_pop k args s =
     (if dict_contains (items s) k then UpdateDictMixin_pop k args s
      else (case args of
              Some dflt \<Rightarrow> (Inr dflt, s)
            | None \<Rightarrow> (Inl (KeyError k), s)))"

text \<open>\<open>get_flashes(key='_flash')\<close> is \<open>self.pop(key, [])\<close>.\<close>

definition get_flashes :: "string \<Rightarrow> SessionDict \<Rightarrow> (error + pyval) \<times> SessionDict" where
  "get_flashes key s = SessionDict_pop key (Some (PList [])) s"

text \<open>
  \<open>add_flash(value, level=None, key='_flash')\<close> is
  \<open>self.setdefault(key, []).append((value, level))\<close>: \<open>append\<close> changes the list object
  that the dictionary holds under \<open>key\<close>, in place; only a list has \<open>append\<close>.
\<close>

definition add_flash ::
  "pyval \<Rightarrow> pyval \<Rightarrow> string \<Rightarrow> SessionDict \<Rightarrow> (error + unit) \<times> SessionDict" where
  "add_flash v level key s =
     (case UpdateDictMixin_setdefault key (PList []) s of
        (Inl e, s1) \<Rightarrow> (Inl e, s1)
      | (Inr (PList xs), s1) \<Rightarrow>
          (Inr (), s1\<lparr>items := AList.update key (PList (xs @ [PTuple [v, level]])) (items s1)\<rparr>)
      | (Inr _, s1) \<Rightarrow> (Inl AttributeError, s1))"

text \<open>
  A call of one of the methods above, and a sequence of such calls on one object: each
  call runs on the object as the one before left it, whether it returned or raised.
\<close>

datatype call =
    SetItem string pyval
  | DelItem string
  | Clear
  | Pop string "pyval option"
  | PopItem
  | SetDefault string pyval
  | Update pydict
  | GetFlashes string
  | AddFlash pyval pyval string

fun after_call :: "call \<Rightarrow> SessionDict \<Rightarrow> SessionDict" where
  "after_call (SetItem k v) s = snd (UpdateDictMixin_setitem k v s)"
| "after_call (DelItem k) s = snd (UpdateDictMixin_delitem k s)"
| "after_call Clear s = snd (UpdateDictMixin_clear s)"
| "after_call (Pop k args) s = snd (SessionDict_pop k args s)"
| "after_call PopItem s = snd (UpdateDictMixin_popitem s)"
| "after_call (SetDefault k v) s = snd (UpdateDictMixin_setdefault k v s)"
| "after_call (Update other) s = snd (UpdateDictMixin_update other s)"
| "after_call (GetFlashes k) s = snd (get_flashes k s)"
| "after_call (AddFlash v level k) s = snd (add_flash v level k s)"

fun after_calls :: "call list \<Rightarrow> SessionDict \<Rightarrow> SessionDict" where
  "after_calls [] s = s"
| "after_calls (c # cs) s = after_calls cs (after_call c s)"

section \<open>Configuration, request, response and the cookie serializer\<close>

text \<open>
  The \<open>max_age\<close> argument of \<open>get_session\<close> and \<open>get_secure_cookie\<close>: the marker
  \<open>webapp2_config.DEFAULT_VALUE\<close>, or a value passed by the caller, where \<open>None\<close>
  means that the timestamp is not checked.
\<close>

datatype max_age_arg = DEFAULT_VALUE | MaxAge "int option"

text \<open>
  The configuration of this module, with the keys of \<open>default_config\<close>. A \<open>secret_key\<close>
  of \<open>None\<close> is \<open>webapp2_config.REQUIRED_VALUE\<close>: the key was never set.
\<close>

record config =
  secret_key :: "string option"
  cookie_name :: string
  session_max_age :: "int option"
  cookie_args :: pydict

text \<open>
  What the store reads of a \<open>webapp2.Request\<close>: the cookies sent by the client and
  \<open>request.app.config\<close>, the configuration of each module by its key. The registry of
  the request is part of \<open>world\<close> below.
\<close>

record request =
  cookies :: "(string \<times> string) list"
  app_config :: "(string \<times> config) list"

text \<open>A response is the list of its \<open>set_cookie(name, value, **kwargs)\<close> calls.\<close>

type_synonym response = "(string \<times> string \<times> pydict) list"

text \<open>
  \<open>webapp2_extras.securecookie\<close> is not part of this module: the two methods of a
  \<open>SecureCookieSerializer\<close> are parameters, each taking the secret key of the serializer
  first. \<open>deserialize\<close> returns \<open>None\<close> for a value it does not accept.
\<close>

record securecookie =
  serialize :: "string \<Rightarrow> string \<Rightarrow> pydict \<Rightarrow> string"
  deserialize :: "string \<Rightarrow> string \<Rightarrow> string \<Rightarrow> int option \<Rightarrow> pydict option"

text \<open>
  Modelled from the spec: the constructor of \<open>securecookie.SecureCookieSerializer\<close> and
  the lookup \<open>config['secret_key']\<close> it is given are not in this module. The spec
  requires a non-empty secret key and lets the construction of the signer fail with a
  configuration error when it is absent.
\<close>

definition SecureCookieSerializer :: "string option \<Rightarrow> error + string" where
  "SecureCookieSerializer key =
     (case key of
        None \<Rightarrow> Inl ConfigurationError
      | Some k \<Rightarrow> if k = [] then Inl ConfigurationError else Inr k)"

section \<open>Session factories and the session store\<close>

datatype factory =
    BaseSessionFactory
  | SecureCookieSessionFactory
  | CustomBackendSessionFactory

text \<open>
  An instance of a session factory. \<open>session\<close> is \<open>None\<close> or the address of its
  \<open>SessionDict\<close> in the heap of the store; \<open>session_store\<close> is the store that every
  method below takes.
\<close>

record session_factory =
  factory_class :: factory
  name :: string
  session_args :: pydict
  session :: "nat option"

text \<open>
  A \<open>SessionStore\<close>: \<open>sessions\<close> is the dictionary of tracked factories,
  \<open>serializer_cache\<close> the value of the cached property \<open>serializer\<close> once it was read
  (the secret key of the serializer built), and \<open>heap\<close> the \<open>SessionDict\<close> objects
  made by the factories of this store, by address.
\<close>

record SessionStore =
  request :: request
  config :: config
  sessions :: "(string \<times> session_factory) list"
  serializer_cache :: "string option"
  heap :: "SessionDict list"

definition config_key :: string where
  "config_key = ''webapp2_extras.sessions''"

definition SessionStore_init :: "request \<Rightarrow> error + SessionStore" where
  "SessionStore_init req =
     (case map_of (app_config req) config_key of
        None \<Rightarrow> Inl (KeyError config_key)
      | Some c \<Rightarrow>
          Inr \<lparr>request = req, config = c, sessions = [], serializer_cache = None, heap = []\<rparr>)"

text \<open>The cached property \<open>serializer\<close>: built from the secret key when first read.\<close>

definition serializer :: "SessionStore \<Rightarrow> (error + string) \<times> SessionStore" where
  "serializer st =
     (case serializer_cache st of
        Some k \<Rightarrow> (Inr k, st)
      | None \<Rightarrow>
          (case SecureCookieSerializer (secret_key (config st)) of
             Inl e \<Rightarrow> (Inl e, st)
           | Inr k \<Rightarrow> (Inr k, st\<lparr>serializer_cache := Some k\<rparr>)))"

definition deref :: "SessionStore \<Rightarrow> nat \<Rightarrow> SessionDict option" where
  "deref st a = (if a < length (heap st) then Some (heap st ! a) else None)"

definition BaseSessionFactory_init :: "factory \<Rightarrow> string \<Rightarrow> SessionStore \<Rightarrow> session_factory" where
  "BaseSessionFactory_init cls nm st =
     \<lparr>factory_class = cls, name = nm, session_args = cookie_args (config st), session = None\<rparr>"

definition get_secure_cookie ::
  "securecookie \<Rightarrow> string \<Rightarrow> max_age_arg \<Rightarrow> SessionStore \<Rightarrow>
   (error + pydict option) \<times> SessionStore" where
  "get_secure_cookie sc nm max_age st =
     (let max_age' = (case max_age of
                        DEFAULT_VALUE \<Rightarrow> session_max_age (config st)
                      | MaxAge m \<Rightarrow> m)
      in case map_of (cookies (request st)) nm of
           None \<Rightarrow> (Inr None, st)
         | Some v \<Rightarrow>
             if v = [] then (Inr None, st)
             else (case serializer st of
                     (Inl e, st') \<Rightarrow> (Inl e, st')
                   | (Inr k, st') \<Rightarrow> (Inr (deserialize sc k nm v max_age'), st')))"

definition save_secure_cookie ::
  "securecookie \<Rightarrow> response \<Rightarrow> string \<Rightarrow> pydict \<Rightarrow> pydict \<Rightarrow> SessionStore \<Rightarrow>
   (error + unit) \<times> SessionStore \<times> response" where
  "save_secure_cookie sc resp nm v kwargs st =
     (case serializer st of
        (Inl e, st') \<Rightarrow> (Inl e, st', resp)
      | (Inr k, st') \<Rightarrow> (Inr (), st', resp @ [(nm, serialize sc k nm v, kwargs)]))"

text \<open>
  The \<open>get_session\<close> method of each factory class, on the instance \<open>self\<close>: the
  address of the session, the instance and the store as the call leaves them.
\<close>

definition SecureCookieSessionFactory_get_session ::
  "securecookie \<Rightarrow> max_age_arg \<Rightarrow> session_factory \<Rightarrow> SessionStore \<Rightarrow>
   (error + nat) \<times> session_factory \<times> SessionStore" where
  "SecureCookieSessionFactory_get_session sc max_age self st =
     (case session self of
        Some a \<Rightarrow> (Inr a, self, st)
      | None \<Rightarrow>
          (case get_secure_cookie sc (name self) max_age st of
             (Inl e, st') \<Rightarrow> (Inl e, self, st')
           | (Inr data, st') \<Rightarrow>
               (let a = length (heap st')
                in (Inr a, self\<lparr>session := Some a\<rparr>,
                    st'\<lparr>heap := heap st' @ [SessionDict_init (name self) data (data = None)]\<rparr>))))"

definition CustomBackendSessionFactory_get_session ::
  "securecookie \<Rightarrow> max_age_arg \<Rightarrow> session_factory \<Rightarrow> SessionStore \<Rightarrow>
   (error + nat) \<times> session_factory \<times> SessionStore" where
  "CustomBackendSessionFactory_get_session sc max_age self st =
     (case session self of
        Some a \<Rightarrow> (Inr a, self, st)
      | None \<Rightarrow>
          (case get_secure_cookie sc (name self) max_age st of
             (Inl e, st') \<Rightarrow> (Inl e, self, st')
           | (Inr data, st') \<Rightarrow> (Inl NotImplementedError, self, st')))"

definition factory_get_session ::
  "securecookie \<Rightarrow> max_age_arg \<Rightarrow> session_factory \<Rightarrow> SessionStore \<Rightarrow>
   (error + nat) \<times> session_factory \<times> SessionStore" where
  "factory_get_session sc max_age self st =
     (case factory_class self of
        BaseSessionFactory \<Rightarrow> (Inl NotImplementedError, self, st)
      | SecureCookieSessionFactory \<Rightarrow> SecureCookieSessionFactory_get_session sc max_age self st
      | CustomBackendSessionFactory \<Rightarrow> CustomBackendSessionFactory_get_session sc max_age self st)"

text \<open>
  \<open>SecureCookieSessionFactory.save_session\<close>: \<open>not self.session\<close> holds for \<open>None\<close>
  and for a \<open>SessionDict\<close> of length zero, a \<open>dict\<close> being false when it is empty.
\<close>

definition SecureCookieSessionFactory_save_session ::
  "securecookie \<Rightarrow> session_factory \<Rightarrow> response \<Rightarrow> SessionStore \<Rightarrow>
   (error + unit) \<times> SessionStore \<times> response" where
  "SecureCookieSessionFactory_save_session sc self resp st =
     (case session self of
        None \<Rightarrow> (Inr (), st, resp)
      | Some a \<Rightarrow>
          (case deref st a of
             None \<Rightarrow> (Inr (), st, resp)
           | Some s \<Rightarrow>
               if items s = [] \<or> \<not> modified s then (Inr (), st, resp)
               else save_secure_cookie sc resp (name self) (items s) (session_args self) st))"

definition save_session ::
  "securecookie \<Rightarrow> session_factory \<Rightarrow> response \<Rightarrow> SessionStore \<Rightarrow>
   (error + unit) \<times> SessionStore \<times> response" where
  "save_session sc self resp st =
     (case factory_class self of
        SecureCookieSessionFactory \<Rightarrow> SecureCookieSessionFactory_save_session sc self resp st
      | _ \<Rightarrow> (Inl NotImplementedError, st, resp))"

text \<open>\<open>SessionStore._get_session_container\<close>, with the instance it returns.\<close>

definition get_session_container ::
  "string \<Rightarrow> factory \<Rightarrow> SessionStore \<Rightarrow> session_factory \<times> SessionStore" where
  "get_session_container nm fac st =
     (case map_of (sessions st) nm of
        Some c \<Rightarrow> (c, st)
      | None \<Rightarrow>
          (let c = BaseSessionFactory_init fac nm st
           in (c, st\<lparr>sessions := AList.update nm c (sessions st)\<rparr>)))"

text \<open>
  \<open>SessionStore.get_session(name=None, max_age=DEFAULT_VALUE, factory=...)\<close>. The
  factory instance is an object of the dictionary \<open>sessions\<close>: what the call of its
  method changed in it is written back under its name.
\<close>

definition get_session ::
  "securecookie \<Rightarrow> string option \<Rightarrow> max_age_arg \<Rightarrow> factory \<Rightarrow> SessionStore \<Rightarrow>
   (error + nat) \<times> SessionStore" where
  "get_session sc nm max_age fac st =
     (let nm' = (case nm of
                   None \<Rightarrow> cookie_name (config st)
                 | Some n \<Rightarrow> if n = [] then cookie_name (config st) else n);
          max_age' = (case max_age of
                        DEFAULT_VALUE \<Rightarrow> MaxAge (session_max_age (config st))
                      | MaxAge m \<Rightarrow> MaxAge m)
      in case get_session_container nm' fac st of
           (c, st1) \<Rightarrow>
             (case factory_get_session sc max_age' c st1 of
                (r, c', st2) \<Rightarrow> (r, st2\<lparr>sessions := AList.update nm' c' (sessions st2)\<rparr>)))"

text \<open>
  \<open>SessionStore.set_secure_cookie(name, value, **kwargs)\<close>: the assertion on \<open>value\<close>,
  then \<open>container.get_session().update(value)\<close> and
  \<open>container.session_args.update(kwargs)\<close>.
\<close>

definition set_secure_cookie ::
  "securecookie \<Rightarrow> string \<Rightarrow> pyval \<Rightarrow> pydict \<Rightarrow> SessionStore \<Rightarrow>
   (error + unit) \<times> SessionStore" where
  "set_secure_cookie sc nm v kwargs st =
     (case v of
        PDict d \<Rightarrow>
          (case get_session_container nm SecureCookieSessionFactory st of
             (c, st1) \<Rightarrow>
               (case factory_get_session sc DEFAULT_VALUE c st1 of
                  (Inl e, c', st2) \<Rightarrow>
                    (Inl e, st2\<lparr>sessions := AList.update nm c' (sessions st2)\<rparr>)
                | (Inr a, c', st2) \<Rightarrow>
                    (Inr (),
                     st2\<lparr>sessions :=
                            AList.update nm
                              (c'\<lparr>session_args := dict_merge kwargs (session_args c')\<rparr>)
                              (sessions st2),
                          heap :=
                            (case deref st2 a of
                               None \<Rightarrow> heap st2
                             | Some s \<Rightarrow> (heap st2)[a := snd (UpdateDictMixin_update d s)])\<rparr>)))
      | _ \<Rightarrow> (Inl AssertionError, st))"

text \<open>
  \<open>SessionStore.save_sessions\<close>: the loop over \<open>self.sessions.values()\<close>, left at the
  first factory whose \<open>save_session\<close> raises.
\<close>

fun save_each ::
  "securecookie \<Rightarrow> session_factory list \<Rightarrow> response \<Rightarrow> SessionStore \<Rightarrow>
   (error + unit) \<times> SessionStore \<times> response" where
  "save_each sc [] resp st = (Inr (), st, resp)"
| "save_each sc (f # fs) resp st =
     (case save_session sc f resp st of
        (Inl e, st', resp') \<Rightarrow> (Inl e, st', resp')
      | (Inr u, st', resp') \<Rightarrow> save_each sc fs resp' st')"

definition save_sessions ::
  "securecookie \<Rightarrow> response \<Rightarrow> SessionStore \<Rightarrow> (error + unit) \<times> SessionStore \<times> response" where
  "save_sessions sc resp st = save_each sc (map snd (sessions st)) resp st"

text \<open>
  A handler calling a method of the session at address \<open>a\<close>: the object in the heap
  is the one changed.
\<close>

definition call_method :: "nat \<Rightarrow> (SessionDict \<Rightarrow> 'r \<times> SessionDict) \<Rightarrow> SessionStore \<Rightarrow> SessionStore" where
  "call_method a m st =
     (case deref st a of
        None \<Rightarrow> st
      | Some s \<Rightarrow> st\<lparr>heap := (heap st)[a := snd (m s)]\<rparr>)"

section \<open>The store of a request\<close>

text \<open>
  The request with its registry. The registry holds store objects by key; \<open>stores\<close>
  are the store objects made so far, by address.
\<close>

record world =
  current_request :: request
  registry :: "(string \<times> nat) list"
  stores :: "SessionStore list"

definition registry_key :: string where
  "registry_key = ''webapp2_extras.sessions.SessionStore''"

text \<open>
  \<open>get_store(factory=SessionStore, key=_registry_key, request=None)\<close>. A
  \<open>SessionStore\<close> defines neither a length nor a truth value, so \<open>not store\<close> holds
  only for the \<open>None\<close> of a key that is not registered.
\<close>

definition get_store ::
  "(request \<Rightarrow> error + SessionStore) \<Rightarrow> string \<Rightarrow> world \<Rightarrow> (error + nat) \<times> world" where
  "get_store fac key w =
     (case map_of (registry w) key of
        Some a \<Rightarrow> (Inr a, w)
      | None \<Rightarrow>
          (case fac (current_request w) of
             Inl e \<Rightarrow> (Inl e, w)
           | Inr s \<Rightarrow>
               (let a = length (stores w)
                in (Inr a, w\<lparr>registry := AList.update key a (registry w),
                              stores := stores w @ [s]\<rparr>))))"

definition set_store :: "nat \<Rightarrow> string \<Rightarrow> world \<Rightarrow> world" where
  "set_store a key w = w\<lparr>registry := AList.update key a (registry w)\<rparr>"

text \<open>
  Every address held by a factory of the store is the address of an object in the heap:
  a factory gets its address from \<open>get_session\<close>, which appends the object. The lookups
  by \<open>deref\<close> above are total, with a \<open>None\<close> that no store made by the functions of
  this module ever reaches.
\<close>

definition sessions_allocated :: "SessionStore \<Rightarrow> bool" where
  "sessions_allocated st =
     list_all (\<lambda>kv. case session (snd kv) of None \<Rightarrow> True | Some a \<Rightarrow> a < length (heap st))
       (sessions st)"

section \<open>Facts about the dictionary methods\<close>

lemma update_same: "map_of d k = Some v \<Longrightarrow> AList.update k v d = d"
  by (induction d) auto

lemma update_absent: "map_of d k = None \<Longrightarrow> AList.update k v d = d @ [(k, v)]"
  by (induction d) auto

lemma delete_absent: "map_of d k = None \<Longrightarrow> AList.delete k d = d"
  by (induction d) auto

lemma map_of_delete_self: "map_of (AList.delete k d) k = None"
  by (induction d) auto

lemma calls_update_modified:
  "modified s \<Longrightarrow> modified (snd (calls_update f s))"
  by (auto simp: calls_update_def on_update_def split: sum.splits prod.splits)

lemma calls_update_returns:
  "f (items s) = Inr (rv, d) \<Longrightarrow>
   calls_update f s = (Inr rv, s\<lparr>items := d, modified := True\<rparr>)"
  by (simp add: calls_update_def on_update_def)

lemma calls_update_raises:
  "f (items s) = Inl e \<Longrightarrow> calls_update f s = (Inl e, s)"
  by (simp add: calls_update_def)

lemma after_call_modified:
  assumes m: "modified s"
  shows "modified (after_call c s)"
proof (cases c)
  case (Pop k args)
  then show ?thesis
    using m
    by (auto simp: SessionDict_pop_def UpdateDictMixin_pop_def calls_update_modified
        split: option.splits)
next
  case (GetFlashes k)
  then show ?thesis
    using m
    by (auto simp: get_flashes_def SessionDict_pop_def UpdateDictMixin_pop_def
        calls_update_modified split: option.splits)
next
  case (AddFlash v level k)
  have "modified (snd (UpdateDictMixin_setdefault k (PList []) s))"
    using m by (simp add: UpdateDictMixin_setdefault_def calls_update_modified)
  then show ?thesis
    using AddFlash
    by (auto simp: add_flash_def split: prod.splits sum.splits pyval.splits)
qed (simp_all add: m UpdateDictMixin_setitem_def UpdateDictMixin_delitem_def
      UpdateDictMixin_clear_def UpdateDictMixin_popitem_def UpdateDictMixin_setdefault_def
      UpdateDictMixin_update_def calls_update_modified)

lemma after_calls_modified: "modified s \<Longrightarrow> modified (after_calls cs s)"
  by (induction cs arbitrary: s) (simp_all add: after_call_modified)

section \<open>What each method of a session dictionary does\<close>

lemma setitem_total:
  "UpdateDictMixin_setitem k v s = (Inr (), s\<lparr>items := AList.update k v (items s), modified := True\<rparr>)"
  by (simp add: UpdateDictMixin_setitem_def dict_setitem_def calls_update_returns)

lemma delitem_present:
  "dict_contains (items s) k \<Longrightarrow>
   UpdateDictMixin_delitem k s = (Inr (), s\<lparr>items := AList.delete k (items s), modified := True\<rparr>)"
  by (simp add: UpdateDictMixin_delitem_def dict_delitem_def calls_update_returns)

lemma delitem_absent:
  "\<not> dict_contains (items s) k \<Longrightarrow> UpdateDictMixin_delitem k s = (Inl (KeyError k), s)"
  by (simp add: UpdateDictMixin_delitem_def dict_delitem_def calls_update_raises)

lemma clear_total:
  "UpdateDictMixin_clear s = (Inr (), s\<lparr>items := [], modified := True\<rparr>)"
  by (simp add: UpdateDictMixin_clear_def dict_clear_def calls_update_returns)

lemma update_total:
  "UpdateDictMixin_update other s =
     (Inr (), s\<lparr>items := dict_merge other (items s), modified := True\<rparr>)"
  by (simp add: UpdateDictMixin_update_def dict_update_def calls_update_returns)

lemma setdefault_present:
  "map_of (items s) k = Some w \<Longrightarrow>
   UpdateDictMixin_setdefault k v s = (Inr w, s\<lparr>modified := True\<rparr>)"
  by (simp add: UpdateDictMixin_setdefault_def dict_setdefault_def calls_update_def on_update_def)

lemma setdefault_absent:
  "map_of (items s) k = None \<Longrightarrow>
   UpdateDictMixin_setdefault k v s =
     (Inr v, s\<lparr>items := items s @ [(k, v)], modified := True\<rparr>)"
  by (simp add: UpdateDictMixin_setdefault_def dict_setdefault_def calls_update_returns update_absent)

lemma pop_present:
  "map_of (items s) k = Some w \<Longrightarrow>
   SessionDict_pop k args s = (Inr w, s\<lparr>items := AList.delete k (items s), modified := True\<rparr>)"
  by (simp add: SessionDict_pop_def dict_contains_def UpdateDictMixin_pop_def dict_pop_def
      calls_update_returns)

lemma pop_absent_default:
  "\<not> dict_contains (items s) k \<Longrightarrow> SessionDict_pop k (Some dflt) s = (Inr dflt, s)"
  by (simp add: SessionDict_pop_def)

lemma pop_absent_raises:
  "\<not> dict_contains (items s) k \<Longrightarrow> SessionDict_pop k None s = (Inl (KeyError k), s)"
  by (simp add: SessionDict_pop_def)

lemma init_fresh: "\<not> modified (SessionDict_init c data n)"
  by (simp add: SessionDict_init_def)


lemma update_last: "map_of d k = None \<Longrightarrow> AList.update k v (d @ [(k, w)]) = d @ [(k, v)]"
  by (induction d) auto

lemma delete_last: "map_of d k = None \<Longrightarrow> AList.delete k (d @ [(k, w)]) = d"
  by (induction d) auto

lemma add_flash_absent:
  "map_of (items s) key = None \<Longrightarrow>
   add_flash v level key s =
     (Inr (), s\<lparr>items := items s @ [(key, PList [PTuple [v, level]])], modified := True\<rparr>)"
  by (simp add: add_flash_def setdefault_absent update_last)

lemma add_flash_list:
  "map_of (items s) key = Some (PList xs) \<Longrightarrow>
   add_flash v level key s =
     (Inr (), s\<lparr>items := AList.update key (PList (xs @ [PTuple [v, level]])) (items s),
                 modified := True\<rparr>)"
  by (simp add: add_flash_def setdefault_present)

lemma get_flashes_present:
  "map_of (items s) key = Some w \<Longrightarrow>
   get_flashes key s = (Inr w, s\<lparr>items := AList.delete key (items s), modified := True\<rparr>)"
  by (simp add: get_flashes_def pop_present)

lemma get_flashes_absent:
  "map_of (items s) key = None \<Longrightarrow> get_flashes key s = (Inr (PList []), s)"
  by (simp add: get_flashes_def pop_absent_default dict_contains_def)

lemma flash_scenario:
  assumes "map_of (items s) key = None"
  shows "get_flashes key (snd (add_flash v level key s)) =
           (Inr (PList [PTuple [v, level]]), s\<lparr>modified := True\<rparr>)"
    and "get_flashes key (snd (get_flashes key (snd (add_flash v level key s)))) =
           (Inr (PList []), s\<lparr>modified := True\<rparr>)"
proof -
  let ?s1 = "s\<lparr>items := items s @ [(key, PList [PTuple [v, level]])], modified := True\<rparr>"
  have a: "add_flash v level key s = (Inr (), ?s1)"
    using assms by (rule add_flash_absent)
  have m: "map_of (items ?s1) key = Some (PList [PTuple [v, level]])"
    using assms by (simp add: map_add_Some_iff)
  have d: "AList.delete key (items s @ [(key, PList [PTuple [v, level]])]) = items s"
    using assms by (rule delete_last)
  show g1: "get_flashes key (snd (add_flash v level key s)) =
           (Inr (PList [PTuple [v, level]]), s\<lparr>modified := True\<rparr>)"
    using get_flashes_present [OF m] d by (simp add: a)
  have "map_of (items (s\<lparr>modified := True\<rparr>)) key = None"
    using assms by simp
  then show "get_flashes key (snd (get_flashes key (snd (add_flash v level key s)))) =
           (Inr (PList []), s\<lparr>modified := True\<rparr>)"
    by (simp add: g1 get_flashes_absent)
qed

section \<open>Mutation tracking of a session dictionary\<close>

lemmas session_dict_defs =
  SessionDict_init_def dict_merge_def dict_contains_def on_update_def calls_update_def
  dict_setitem_def dict_delitem_def dict_clear_def dict_pop_def dict_popitem_def
  dict_setdefault_def dict_update_def UpdateDictMixin_setitem_def UpdateDictMixin_delitem_def
  UpdateDictMixin_clear_def UpdateDictMixin_pop_def UpdateDictMixin_popitem_def
  UpdateDictMixin_setdefault_def UpdateDictMixin_update_def SessionDict_pop_def
  get_flashes_def add_flash_def

text \<open>
  Claim C2, as amended. A freshly constructed \<open>SessionDict\<close> has \<open>modified = False\<close>.
  After \<open>__setitem__\<close>, \<open>clear\<close>, \<open>update\<close> or \<open>setdefault\<close>, and after
  \<open>__delitem__\<close> or \<open>pop\<close> of a key that is present, \<open>modified\<close> is true, and no
  sequence of method calls, returning or raising, makes a true flag false again. Both
  \<open>pop\<close> with no default and \<open>__delitem__\<close> of an absent key raise \<open>KeyError\<close> and
  leave the dictionary and the flag as they were.
\<close>

theorem mutation_tracking:
  "\<not> modified (SessionDict_init c data n)
   \<and> modified (snd (UpdateDictMixin_setitem k v s))
   \<and> (dict_contains (items sp) kp \<longrightarrow>
        fst (UpdateDictMixin_delitem kp sp) = Inr ()
        \<and> modified (snd (UpdateDictMixin_delitem kp sp)))
   \<and> modified (snd (UpdateDictMixin_clear s))
   \<and> modified (snd (UpdateDictMixin_update other s))
   \<and> modified (snd (UpdateDictMixin_setdefault k v s))
   \<and> (dict_contains (items sp) kp \<longrightarrow> modified (snd (SessionDict_pop kp args sp)))
   \<and> (modified sm \<longrightarrow> modified (after_calls cs sm))
   \<and> (\<not> dict_contains (items sa) ka \<longrightarrow>
        SessionDict_pop ka None sa = (Inl (KeyError ka), sa)
        \<and> UpdateDictMixin_delitem ka sa = (Inl (KeyError ka), sa))"
proof -
  have sd: "modified (snd (UpdateDictMixin_setdefault k v s))"
    by (cases "map_of (items s) k") (simp_all add: setdefault_absent setdefault_present)
  have pp: "dict_contains (items sp) kp \<longrightarrow> modified (snd (SessionDict_pop kp args sp))"
    by (auto simp: dict_contains_def pop_present)
  show ?thesis
    using sd pp
    by (simp add: init_fresh setitem_total delitem_present delitem_absent clear_total
        update_total after_calls_modified pop_absent_raises)
qed

text \<open>The theorem at a session holding one key, and at an empty one.\<close>

theorem mutation_tracking_witness:
  "dict_contains (items \<lparr>container = ''session'', new = False, modified = False,
                        items = [(''user'', PStr ''alice'')]\<rparr>) ''user''
   \<and> \<not> dict_contains (items (SessionDict_init ''session'' None True)) ''user''
   \<and> modified (snd (UpdateDictMixin_delitem ''user''
        \<lparr>container = ''session'', new = False, modified = False,
         items = [(''user'', PStr ''alice'')]\<rparr>))
   \<and> modified (snd (SessionDict_pop ''user'' None
        \<lparr>container = ''session'', new = False, modified = False,
         items = [(''user'', PStr ''alice'')]\<rparr>))
   \<and> modified (snd (UpdateDictMixin_clear (SessionDict_init ''session'' None True)))
   \<and> modified (after_calls [Pop ''user'' None, DelItem ''user'']
        (snd (UpdateDictMixin_clear (SessionDict_init ''session'' None True))))
   \<and> SessionDict_pop ''user'' None (SessionDict_init ''session'' None True) =
        (Inl (KeyError ''user''), SessionDict_init ''session'' None True)"
  using mutation_tracking [where sp = "\<lparr>container = ''session'', new = False, modified = False,
                        items = [(''user'', PStr ''alice'')]\<rparr>" and kp = "''user''"
      and sa = "SessionDict_init ''session'' None True" and ka = "''user''"
      and s = "SessionDict_init ''session'' None True"
      and sm = "snd (UpdateDictMixin_clear (SessionDict_init ''session'' None True))"
      and cs = "[Pop ''user'' None, DelItem ''user'']" and args = None]
  by (simp add: session_dict_defs)

text \<open>
  Claim C2 as it was stated fails for \<open>__delitem__\<close>: deleting an absent key from a
  fresh session raises, and the flag stays false.
\<close>

theorem delitem_absent_counterexample:
  "\<not> modified (snd (UpdateDictMixin_delitem ''user'' (SessionDict_init ''session'' None True)))"
  by (simp add: UpdateDictMixin_delitem_def calls_update_def dict_delitem_def
      dict_contains_def SessionDict_init_def dict_merge_def)

text \<open>
  Claim C3, as amended. For a key that is absent, \<open>pop(key, default)\<close> returns the
  default and leaves the session as it was: its contents and its \<open>modified\<close> flag
  do not change.
\<close>

theorem pop_absent_with_default:
  "\<not> dict_contains (items s) k \<Longrightarrow> SessionDict_pop k (Some dflt) s = (Inr dflt, s)"
  by (rule pop_absent_default)

theorem pop_absent_with_default_witness:
  "\<not> dict_contains (items (SessionDict_init ''session'' None True)) ''theme''
   \<and> SessionDict_pop ''theme'' (Some (PStr ''light'')) (SessionDict_init ''session'' None True) =
       (Inr (PStr ''light''), SessionDict_init ''session'' None True)"
  using pop_absent_with_default [of "SessionDict_init ''session'' None True" "''theme''" "PStr ''light''"]
  by (simp add: dict_contains_def SessionDict_init_def dict_merge_def)

text \<open>
  Claim C3 as it was stated fails: after \<open>pop\<close> of an absent key with a default, a
  fresh session is still unmodified.
\<close>

theorem pop_absent_with_default_counterexample:
  "\<not> modified (snd (SessionDict_pop ''theme'' (Some (PStr ''light''))
                     (SessionDict_init ''session'' None True)))"
  by (simp add: SessionDict_pop_def dict_contains_def SessionDict_init_def dict_merge_def)

text \<open>
  Claim C5. \<open>add_flash(value, level, key)\<close> appends the pair to the list under \<open>key\<close>,
  making the list when the key is absent, and sets \<open>modified\<close>. \<open>get_flashes(key)\<close>
  returns the list under \<open>key\<close> and removes it, setting \<open>modified\<close>; for an absent key
  it returns the empty list and leaves the session as it was. So on a session with no
  flashes, \<open>get_flashes\<close> after \<open>add_flash(value, level)\<close> returns the one pair, and
  a second \<open>get_flashes\<close> returns the empty list.
\<close>

theorem flash_messages:
  "(map_of (items sa) key = None \<longrightarrow>
      add_flash v level key sa =
        (Inr (), sa\<lparr>items := items sa @ [(key, PList [PTuple [v, level]])], modified := True\<rparr>)
      \<and> get_flashes key sa = (Inr (PList []), sa)
      \<and> get_flashes key (snd (add_flash v level key sa)) =
          (Inr (PList [PTuple [v, level]]), sa\<lparr>modified := True\<rparr>)
      \<and> get_flashes key (snd (get_flashes key (snd (add_flash v level key sa)))) =
          (Inr (PList []), sa\<lparr>modified := True\<rparr>))
   \<and> (map_of (items sp) key = Some (PList xs) \<longrightarrow>
      add_flash v level key sp =
        (Inr (), sp\<lparr>items := AList.update key (PList (xs @ [PTuple [v, level]])) (items sp),
                    modified := True\<rparr>)
      \<and> get_flashes key sp =
          (Inr (PList xs), sp\<lparr>items := AList.delete key (items sp), modified := True\<rparr>))"
proof (intro conjI impI)
  assume a: "map_of (items sa) key = None"
  show "add_flash v level key sa =
        (Inr (), sa\<lparr>items := items sa @ [(key, PList [PTuple [v, level]])], modified := True\<rparr>)"
    using a by (rule add_flash_absent)
  show "get_flashes key sa = (Inr (PList []), sa)"
    using a by (rule get_flashes_absent)
  show "get_flashes key (snd (add_flash v level key sa)) =
          (Inr (PList [PTuple [v, level]]), sa\<lparr>modified := True\<rparr>)"
    using a by (rule flash_scenario)
  show "get_flashes key (snd (get_flashes key (snd (add_flash v level key sa)))) =
          (Inr (PList []), sa\<lparr>modified := True\<rparr>)"
    using a by (rule flash_scenario)
next
  assume p: "map_of (items sp) key = Some (PList xs)"
  show "add_flash v level key sp =
        (Inr (), sp\<lparr>items := AList.update key (PList (xs @ [PTuple [v, level]])) (items sp),
                    modified := True\<rparr>)"
    using p by (rule add_flash_list)
  show "get_flashes key sp =
          (Inr (PList xs), sp\<lparr>items := AList.delete key (items sp), modified := True\<rparr>)"
    using p by (rule get_flashes_present)
qed

text \<open>The scenario of the spec on a new session, and a session that holds a flash.\<close>

theorem flash_messages_witness:
  "map_of (items (SessionDict_init ''session'' None True)) ''_flash'' = None
   \<and> fst (get_flashes ''_flash''
        (snd (add_flash (PStr ''saved!'') (PStr ''info'') ''_flash''
               (SessionDict_init ''session'' None True)))) =
       Inr (PList [PTuple [PStr ''saved!'', PStr ''info'']])
   \<and> fst (get_flashes ''_flash''
        (snd (get_flashes ''_flash''
          (snd (add_flash (PStr ''saved!'') (PStr ''info'') ''_flash''
                 (SessionDict_init ''session'' None True)))))) = Inr (PList [])
   \<and> \<not> modified (snd (get_flashes ''_flash'' (SessionDict_init ''session'' None True)))
   \<and> map_of (items \<lparr>container = ''session'', new = False, modified = False,
                     items = [(''_flash'', PList [PTuple [PStr ''hello'', PNone]])]\<rparr>) ''_flash'' =
       Some (PList [PTuple [PStr ''hello'', PNone]])
   \<and> add_flash (PStr ''saved!'') (PStr ''info'') ''_flash''
        \<lparr>container = ''session'', new = False, modified = False,
         items = [(''_flash'', PList [PTuple [PStr ''hello'', PNone]])]\<rparr> =
       (Inr (), \<lparr>container = ''session'', new = False, modified = True,
         items = [(''_flash'', PList [PTuple [PStr ''hello'', PNone],
                                      PTuple [PStr ''saved!'', PStr ''info'']])]\<rparr>)
   \<and> get_flashes ''_flash''
        \<lparr>container = ''session'', new = False, modified = False,
         items = [(''_flash'', PList [PTuple [PStr ''hello'', PNone]])]\<rparr> =
       (Inr (PList [PTuple [PStr ''hello'', PNone]]),
        \<lparr>container = ''session'', new = False, modified = True, items = []\<rparr>)"
  using flash_messages [where sa = "SessionDict_init ''session'' None True"
      and key = "''_flash''" and v = "PStr ''saved!''" and level = "PStr ''info''"
      and sp = "\<lparr>container = ''session'', new = False, modified = False,
         items = [(''_flash'', PList [PTuple [PStr ''hello'', PNone]])]\<rparr>"
      and xs = "[PTuple [PStr ''hello'', PNone]]"]
  by (simp add: session_dict_defs)

text \<open>
  Claim C10, as amended. The flag follows the calls that return, not the change of
  contents: \<open>__setitem__\<close>, \<open>clear\<close>, \<open>update\<close> and \<open>setdefault\<close> always set
  \<open>modified\<close>, also when the contents stay the same (\<open>update\<close> with an empty mapping,
  \<open>clear\<close> of an empty session, \<open>setdefault\<close> of a present key, a key set to the value
  it has). \<open>__delitem__\<close> of a present key sets the flag and always changes the
  contents; \<open>__delitem__\<close> of an absent key raises \<open>KeyError\<close> and sets nothing.
\<close>

theorem modified_tracks_calls:
  "modified (snd (UpdateDictMixin_setitem k v s))
   \<and> modified (snd (UpdateDictMixin_clear s))
   \<and> modified (snd (UpdateDictMixin_update other s))
   \<and> modified (snd (UpdateDictMixin_setdefault k v s))
   \<and> items (snd (UpdateDictMixin_update [] s)) = items s
   \<and> (items se = [] \<longrightarrow> items (snd (UpdateDictMixin_clear se)) = items se)
   \<and> (map_of (items sp) kp = Some w \<longrightarrow>
        items (snd (UpdateDictMixin_setdefault kp v sp)) = items sp
        \<and> items (snd (UpdateDictMixin_setitem kp w sp)) = items sp
        \<and> UpdateDictMixin_delitem kp sp =
            (Inr (), sp\<lparr>items := AList.delete kp (items sp), modified := True\<rparr>)
        \<and> items (snd (UpdateDictMixin_delitem kp sp)) \<noteq> items sp)
   \<and> (map_of (items sa) ka = None \<longrightarrow>
        UpdateDictMixin_delitem ka sa = (Inl (KeyError ka), sa))"
proof -
  have sd: "modified (snd (UpdateDictMixin_setdefault k v s))"
    by (cases "map_of (items s) k") (simp_all add: setdefault_absent setdefault_present)
  have ne: "map_of (items sp) kp = Some w \<longrightarrow> AList.delete kp (items sp) \<noteq> items sp"
  proof
    assume a: "map_of (items sp) kp = Some w"
    show "AList.delete kp (items sp) \<noteq> items sp"
    proof
      assume "AList.delete kp (items sp) = items sp"
      then have "map_of (items sp) kp = None"
        using map_of_delete_self [of kp "items sp"] by simp
      with a show False by simp
    qed
  qed
  show ?thesis
    using sd ne
    by (simp add: setitem_total clear_total update_total dict_merge_def setdefault_present
        update_same delitem_present delitem_absent dict_contains_def)
qed

theorem modified_tracks_calls_witness:
  "items (SessionDict_init ''session'' None True) = []
   \<and> modified (snd (UpdateDictMixin_clear (SessionDict_init ''session'' None True)))
   \<and> items (snd (UpdateDictMixin_clear (SessionDict_init ''session'' None True))) = []
   \<and> modified (snd (UpdateDictMixin_update [] (SessionDict_init ''session'' None True)))
   \<and> map_of (items (SessionDict_init ''session'' (Some [(''user'', PStr ''alice'')]) False)) ''user''
       = Some (PStr ''alice'')
   \<and> modified (snd (UpdateDictMixin_setdefault ''user'' (PStr ''bob'')
        (SessionDict_init ''session'' (Some [(''user'', PStr ''alice'')]) False)))
   \<and> items (snd (UpdateDictMixin_setdefault ''user'' (PStr ''bob'')
        (SessionDict_init ''session'' (Some [(''user'', PStr ''alice'')]) False))) =
       [(''user'', PStr ''alice'')]
   \<and> items (snd (UpdateDictMixin_setitem ''user'' (PStr ''alice'')
        (SessionDict_init ''session'' (Some [(''user'', PStr ''alice'')]) False))) =
       [(''user'', PStr ''alice'')]
   \<and> map_of (items (SessionDict_init ''session'' (Some [(''user'', PStr ''alice'')]) False)) ''token''
       = None
   \<and> fst (UpdateDictMixin_delitem ''token''
        (SessionDict_init ''session'' (Some [(''user'', PStr ''alice'')]) False)) =
       Inl (KeyError ''token'')"
  using modified_tracks_calls [where se = "SessionDict_init ''session'' None True"
      and s = "SessionDict_init ''session'' None True"
      and sp = "SessionDict_init ''session'' (Some [(''user'', PStr ''alice'')]) False"
      and kp = "''user''" and w = "PStr ''alice''" and v = "PStr ''bob''"
      and sa = "SessionDict_init ''session'' (Some [(''user'', PStr ''alice'')]) False"
      and ka = "''token''" and other = "[]" and k = "''user''"]
  by (simp add: session_dict_defs)

text \<open>
  Claim C10 as it was stated fails for \<open>__delitem__\<close>: the call on an absent key
  leaves the contents as they were, and does not set the flag.
\<close>

theorem delitem_unchanged_counterexample:
  "items (snd (UpdateDictMixin_delitem ''token''
        (SessionDict_init ''session'' (Some [(''user'', PStr ''alice'')]) False))) =
     items (SessionDict_init ''session'' (Some [(''user'', PStr ''alice'')]) False)
   \<and> \<not> modified (snd (UpdateDictMixin_delitem ''token''
        (SessionDict_init ''session'' (Some [(''user'', PStr ''alice'')]) False)))"
  by (simp add: UpdateDictMixin_delitem_def calls_update_def dict_delitem_def
      dict_contains_def SessionDict_init_def dict_merge_def)

section \<open>The store: cookies, sessions and the effective max-age\<close>

lemma serializer_sessions:
  "serializer (st\<lparr>sessions := x\<rparr>) =
     (fst (serializer st), (snd (serializer st))\<lparr>sessions := x\<rparr>)"
  by (simp add: serializer_def split: option.splits sum.splits)

lemma serializer_returns:
  "fst (serializer st) = Inr k \<Longrightarrow> serializer st = (Inr k, st\<lparr>serializer_cache := Some k\<rparr>)"
  by (auto simp: serializer_def split: option.splits sum.splits)

lemma serializer_raises:
  "serializer_cache st = None \<Longrightarrow> SecureCookieSerializer (secret_key (config st)) = Inl e \<Longrightarrow>
   serializer st = (Inl e, st)"
  by (simp add: serializer_def)

lemma get_secure_cookie_sessions:
  "get_secure_cookie sc nm ma (st\<lparr>sessions := x\<rparr>) =
     (fst (get_secure_cookie sc nm ma st), (snd (get_secure_cookie sc nm ma st))\<lparr>sessions := x\<rparr>)"
  by (cases ma)
    (simp_all add: get_secure_cookie_def serializer_sessions Let_def
      split: option.splits prod.splits sum.splits)



lemma get_secure_cookie_heap:
  "heap (snd (get_secure_cookie sc nm ma st)) = heap st"
  by (auto simp: get_secure_cookie_def serializer_def Let_def
      split: option.splits prod.splits sum.splits)

lemma get_secure_cookie_sessions_same:
  "sessions (snd (get_secure_cookie sc nm ma st)) = sessions st"
  by (auto simp: get_secure_cookie_def serializer_def Let_def
      split: option.splits prod.splits sum.splits)




lemma map_of_update_same: "map_of (AList.update k v al) k = Some v"
  by (simp add: AList.update_conv')

lemma deref_append: "deref (st\<lparr>heap := heap st @ [s]\<rparr>) (length (heap st)) = Some s"
  by (simp add: deref_def)

lemma get_session_new:
  assumes u: "map_of (sessions st) n = None"
    and n: "n \<noteq> []"
    and g: "fst (get_secure_cookie sc n (MaxAge m) st) = Inr data"
  shows "fst (get_session sc (Some n) (MaxAge m) SecureCookieSessionFactory st) =
           Inr (length (heap st))"
    and "deref (snd (get_session sc (Some n) (MaxAge m) SecureCookieSessionFactory st))
           (length (heap st)) = Some (SessionDict_init n data (data = None))"
    and "map_of (sessions (snd (get_session sc (Some n) (MaxAge m) SecureCookieSessionFactory st))) n =
           Some \<lparr>factory_class = SecureCookieSessionFactory, name = n,
                 session_args = cookie_args (config st), session = Some (length (heap st))\<rparr>"
proof -
  obtain st' where g': "get_secure_cookie sc n (MaxAge m) st = (Inr data, st')"
    using g by (cases "get_secure_cookie sc n (MaxAge m) st") simp
  have h: "heap st' = heap st"
    using get_secure_cookie_heap [of sc n "MaxAge m" st] by (simp add: g')
  let ?r = "get_session sc (Some n) (MaxAge m) SecureCookieSessionFactory st"
  have r: "?r = (Inr (length (heap st)),
      st'\<lparr>sessions := AList.update n
          \<lparr>factory_class = SecureCookieSessionFactory, name = n,
           session_args = cookie_args (config st), session = Some (length (heap st))\<rparr>
          (AList.update n (BaseSessionFactory_init SecureCookieSessionFactory n st) (sessions st)),
        heap := heap st @ [SessionDict_init n data (data = None)]\<rparr>)"
    using u n
    by (simp add: get_session_def get_session_container_def factory_get_session_def
        SecureCookieSessionFactory_get_session_def BaseSessionFactory_init_def
        get_secure_cookie_sessions g' h Let_def)
  show "fst ?r = Inr (length (heap st))" by (simp add: r)
  show "deref (snd ?r) (length (heap st)) = Some (SessionDict_init n data (data = None))"
    by (simp add: r deref_def)
  show "map_of (sessions (snd ?r)) n =
           Some \<lparr>factory_class = SecureCookieSessionFactory, name = n,
                 session_args = cookie_args (config st), session = Some (length (heap st))\<rparr>"
    by (simp add: r map_of_update_same)
qed


lemmas store_defs =
  config_key_def SessionStore_init_def serializer_def SecureCookieSerializer_def deref_def
  BaseSessionFactory_init_def get_secure_cookie_def save_secure_cookie_def
  SecureCookieSessionFactory_get_session_def CustomBackendSessionFactory_get_session_def
  factory_get_session_def SecureCookieSessionFactory_save_session_def save_session_def
  get_session_container_def get_session_def set_secure_cookie_def save_sessions_def
  call_method_def get_store_def set_store_def registry_key_def

section \<open>Constructing a store, and the store of a request\<close>

lemma SessionStore_init_returns:
  "map_of (app_config req) config_key = Some c \<Longrightarrow>
   SessionStore_init req =
     Inr \<lparr>request = req, config = c, sessions = [], serializer_cache = None, heap = []\<rparr>"
  by (simp add: SessionStore_init_def)

lemma SessionStore_init_fresh:
  "SessionStore_init req = Inr st \<Longrightarrow>
   request st = req \<and> serializer_cache st = None \<and> sessions st = [] \<and> heap st = []"
  by (auto simp: SessionStore_init_def split: option.splits)

lemma no_key_no_serializer:
  "secret_key (config st) = None \<or> secret_key (config st) = Some [] \<Longrightarrow>
   SecureCookieSerializer (secret_key (config st)) = Inl ConfigurationError"
  by (auto simp: SecureCookieSerializer_def)

text \<open>
  Claim C7, as amended. \<open>SessionStore.__init__\<close> reads the configuration of the
  module and nothing of the secret key: it returns a store whatever \<open>secret_key\<close> is,
  with the serializer not built. With a secret key that is unset or empty the
  configuration error comes when the property \<open>serializer\<close> is first read: by
  \<open>save_secure_cookie\<close>, and by \<open>get_secure_cookie\<close> when the request carries a
  value for the cookie. With no such cookie \<open>get_secure_cookie\<close> returns \<open>None\<close> and
  no error.
\<close>

theorem secret_key_read_at_first_use:
  "(map_of (app_config req) config_key = Some c \<longrightarrow>
      SessionStore_init req =
        Inr \<lparr>request = req, config = c, sessions = [], serializer_cache = None, heap = []\<rparr>)
   \<and> (SessionStore_init req = Inr st
        \<and> (secret_key (config st) = None \<or> secret_key (config st) = Some []) \<longrightarrow>
        serializer st = (Inl ConfigurationError, st)
        \<and> save_secure_cookie sc resp nm d kwargs st = (Inl ConfigurationError, st, resp)
        \<and> (map_of (cookies req) nm = None \<longrightarrow>
             get_secure_cookie sc nm ma st = (Inr None, st))
        \<and> (map_of (cookies req) nm = Some v \<and> v \<noteq> [] \<longrightarrow>
             get_secure_cookie sc nm ma st = (Inl ConfigurationError, st)))"
proof (intro conjI impI)
  assume "map_of (app_config req) config_key = Some c"
  then show "SessionStore_init req =
        Inr \<lparr>request = req, config = c, sessions = [], serializer_cache = None, heap = []\<rparr>"
    by (rule SessionStore_init_returns)
next
  assume a: "SessionStore_init req = Inr st
        \<and> (secret_key (config st) = None \<or> secret_key (config st) = Some [])"
  then have f: "request st = req" "serializer_cache st = None"
    using SessionStore_init_fresh [of req st] by simp_all
  have k: "SecureCookieSerializer (secret_key (config st)) = Inl ConfigurationError"
    using a by (simp add: no_key_no_serializer)
  show s: "serializer st = (Inl ConfigurationError, st)"
    using f k by (simp add: serializer_raises)
  show "save_secure_cookie sc resp nm d kwargs st = (Inl ConfigurationError, st, resp)"
    by (simp add: save_secure_cookie_def s)
  show "get_secure_cookie sc nm ma st = (Inr None, st)"
    if "map_of (cookies req) nm = None"
    using that f by (simp add: get_secure_cookie_def)
  show "get_secure_cookie sc nm ma st = (Inl ConfigurationError, st)"
    if "map_of (cookies req) nm = Some v \<and> v \<noteq> []"
    using that f by (simp add: get_secure_cookie_def s)
qed

text \<open>A request carrying a session cookie, for an application that never set the key.\<close>

theorem secret_key_read_at_first_use_witness:
  "map_of (app_config
      \<lparr>cookies = [(''session'', ''token'')],
       app_config = [(''webapp2_extras.sessions'',
         \<lparr>secret_key = None, cookie_name = ''session'', session_max_age = None,
          cookie_args = [(''path'', PStr ''/'')]\<rparr>)]\<rparr>) config_key =
     Some \<lparr>secret_key = None, cookie_name = ''session'', session_max_age = None,
           cookie_args = [(''path'', PStr ''/'')]\<rparr>
   \<and> SessionStore_init
      \<lparr>cookies = [(''session'', ''token'')],
       app_config = [(''webapp2_extras.sessions'',
         \<lparr>secret_key = None, cookie_name = ''session'', session_max_age = None,
          cookie_args = [(''path'', PStr ''/'')]\<rparr>)]\<rparr> =
     Inr \<lparr>request = \<lparr>cookies = [(''session'', ''token'')],
             app_config = [(''webapp2_extras.sessions'',
               \<lparr>secret_key = None, cookie_name = ''session'', session_max_age = None,
                cookie_args = [(''path'', PStr ''/'')]\<rparr>)]\<rparr>,
           config = \<lparr>secret_key = None, cookie_name = ''session'', session_max_age = None,
                cookie_args = [(''path'', PStr ''/'')]\<rparr>,
           sessions = [], serializer_cache = None, heap = []\<rparr>
   \<and> fst (save_secure_cookie \<lparr>serialize = (\<lambda>k n d. ''token''), deserialize = (\<lambda>k n t m. None)\<rparr>
        [] ''session'' [(''user'', PStr ''alice'')] []
        \<lparr>request = \<lparr>cookies = [(''session'', ''token'')],
             app_config = [(''webapp2_extras.sessions'',
               \<lparr>secret_key = None, cookie_name = ''session'', session_max_age = None,
                cookie_args = [(''path'', PStr ''/'')]\<rparr>)]\<rparr>,
           config = \<lparr>secret_key = None, cookie_name = ''session'', session_max_age = None,
                cookie_args = [(''path'', PStr ''/'')]\<rparr>,
           sessions = [], serializer_cache = None, heap = []\<rparr>) = Inl ConfigurationError
   \<and> fst (get_secure_cookie \<lparr>serialize = (\<lambda>k n d. ''token''), deserialize = (\<lambda>k n t m. None)\<rparr>
        ''session'' DEFAULT_VALUE
        \<lparr>request = \<lparr>cookies = [(''session'', ''token'')],
             app_config = [(''webapp2_extras.sessions'',
               \<lparr>secret_key = None, cookie_name = ''session'', session_max_age = None,
                cookie_args = [(''path'', PStr ''/'')]\<rparr>)]\<rparr>,
           config = \<lparr>secret_key = None, cookie_name = ''session'', session_max_age = None,
                cookie_args = [(''path'', PStr ''/'')]\<rparr>,
           sessions = [], serializer_cache = None, heap = []\<rparr>) = Inl ConfigurationError
   \<and> fst (get_secure_cookie \<lparr>serialize = (\<lambda>k n d. ''token''), deserialize = (\<lambda>k n t m. None)\<rparr>
        ''other'' DEFAULT_VALUE
        \<lparr>request = \<lparr>cookies = [(''session'', ''token'')],
             app_config = [(''webapp2_extras.sessions'',
               \<lparr>secret_key = None, cookie_name = ''session'', session_max_age = None,
                cookie_args = [(''path'', PStr ''/'')]\<rparr>)]\<rparr>,
           config = \<lparr>secret_key = None, cookie_name = ''session'', session_max_age = None,
                cookie_args = [(''path'', PStr ''/'')]\<rparr>,
           sessions = [], serializer_cache = None, heap = []\<rparr>) = Inr None"
  using secret_key_read_at_first_use [where req = "\<lparr>cookies = [(''session'', ''token'')],
       app_config = [(''webapp2_extras.sessions'',
         \<lparr>secret_key = None, cookie_name = ''session'', session_max_age = None,
          cookie_args = [(''path'', PStr ''/'')]\<rparr>)]\<rparr>"
      and c = "\<lparr>secret_key = None, cookie_name = ''session'', session_max_age = None,
           cookie_args = [(''path'', PStr ''/'')]\<rparr>"
      and st = "\<lparr>request = \<lparr>cookies = [(''session'', ''token'')],
             app_config = [(''webapp2_extras.sessions'',
               \<lparr>secret_key = None, cookie_name = ''session'', session_max_age = None,
                cookie_args = [(''path'', PStr ''/'')]\<rparr>)]\<rparr>,
           config = \<lparr>secret_key = None, cookie_name = ''session'', session_max_age = None,
                cookie_args = [(''path'', PStr ''/'')]\<rparr>,
           sessions = [], serializer_cache = None, heap = []\<rparr>"
      and nm = "''session''" and v = "''token''"]
  by (simp add: store_defs Let_def)

text \<open>
  Claim C7 as it was stated fails: with \<open>secret_key\<close> unset, the constructor returns
  a store and raises nothing.
\<close>

theorem store_without_secret_key_counterexample:
  "SessionStore_init
      \<lparr>cookies = [],
       app_config = [(''webapp2_extras.sessions'',
         \<lparr>secret_key = None, cookie_name = ''session'', session_max_age = None,
          cookie_args = [(''path'', PStr ''/'')]\<rparr>)]\<rparr> =
     Inr \<lparr>request = \<lparr>cookies = [],
             app_config = [(''webapp2_extras.sessions'',
               \<lparr>secret_key = None, cookie_name = ''session'', session_max_age = None,
                cookie_args = [(''path'', PStr ''/'')]\<rparr>)]\<rparr>,
           config = \<lparr>secret_key = None, cookie_name = ''session'', session_max_age = None,
                cookie_args = [(''path'', PStr ''/'')]\<rparr>,
           sessions = [], serializer_cache = None, heap = []\<rparr>"
  by (simp add: SessionStore_init_def config_key_def)






section \<open>One container for each session name\<close>















section \<open>Setting a secure cookie\<close>




lemma set_secure_cookie_not_dict:
  "(case v of PDict d \<Rightarrow> False | _ \<Rightarrow> True) \<Longrightarrow>
   set_secure_cookie sc nm v kwargs st = (Inl AssertionError, st)"
  by (cases v) (simp_all add: set_secure_cookie_def)










section \<open>Saving the sessions\<close>

text \<open>
  \<open>SecureCookieSessionFactory.save_session\<close> case by case: nothing is written for a
  session that was never made, for one that is not modified, and for one that is empty,
  modified or not; a modified session that holds a key is serialized and set as a cookie
  with the \<open>session_args\<close> of the factory.
\<close>

lemma save_session_never_created:
  "factory_class c = SecureCookieSessionFactory \<Longrightarrow> session c = None \<Longrightarrow>
   save_session sc c resp st = (Inr (), st, resp)"
  by (simp add: save_session_def SecureCookieSessionFactory_save_session_def)

lemma save_session_unmodified:
  "factory_class c = SecureCookieSessionFactory \<Longrightarrow> session c = Some a \<Longrightarrow>
   deref st a = Some s \<Longrightarrow> \<not> modified s \<Longrightarrow>
   save_session sc c resp st = (Inr (), st, resp)"
  by (simp add: save_session_def SecureCookieSessionFactory_save_session_def)

lemma save_session_modified_empty:
  "factory_class c = SecureCookieSessionFactory \<Longrightarrow> session c = Some a \<Longrightarrow>
   deref st a = Some s \<Longrightarrow> items s = [] \<Longrightarrow>
   save_session sc c resp st = (Inr (), st, resp)"
  by (simp add: save_session_def SecureCookieSessionFactory_save_session_def)

lemma save_session_modified_nonempty:
  "factory_class c = SecureCookieSessionFactory \<Longrightarrow> session c = Some a \<Longrightarrow>
   deref st a = Some s \<Longrightarrow> modified s \<Longrightarrow> items s \<noteq> [] \<Longrightarrow>
   fst (serializer st) = Inr k \<Longrightarrow>
   save_session sc c resp st =
     (Inr (), st\<lparr>serializer_cache := Some k\<rparr>,
      resp @ [(name c, serialize sc k (name c) (items s), session_args c)])"
  by (simp add: save_session_def SecureCookieSessionFactory_save_session_def
      save_secure_cookie_def serializer_returns)

text \<open>
  Claim C1, on a request that carries a session cookie with \<open>{'user': 'alice'}\<close>. The
  handler gets the session and calls \<open>clear()\<close>: the session is modified and empty,
  and \<open>save_sessions\<close> writes no cookie, where the claim asks for a cookie holding the
  empty mapping. Had the handler set a key instead, the cookie would be written.
\<close>

theorem save_sessions_skips_cleared_session:
  "fst (get_session \<lparr>serialize = (\<lambda>k n d. ''signed''),
       deserialize = (\<lambda>k n t m. Some [(''user'', PStr ''alice'')])\<rparr> None DEFAULT_VALUE SecureCookieSessionFactory \<lparr>request = \<lparr>cookies = [(''session'', ''token'')], app_config = []\<rparr>,
          config = \<lparr>secret_key = Some ''secret'', cookie_name = ''session'',
                    session_max_age = None, cookie_args = [(''path'', PStr ''/'')]\<rparr>,
          sessions = [], serializer_cache = None, heap = []\<rparr>) = Inr 0
   \<and> deref (snd (get_session \<lparr>serialize = (\<lambda>k n d. ''signed''),
       deserialize = (\<lambda>k n t m. Some [(''user'', PStr ''alice'')])\<rparr> None DEFAULT_VALUE SecureCookieSessionFactory
 \<lparr>request = \<lparr>cookies = [(''session'', ''token'')], app_config = []\<rparr>,
          config = \<lparr>secret_key = Some ''secret'', cookie_name = ''session'',
                    session_max_age = None, cookie_args = [(''path'', PStr ''/'')]\<rparr>,
          sessions = [], serializer_cache = None, heap = []\<rparr>)) 0 =
       Some \<lparr>container = ''session'', new = False, modified = False,
             items = [(''user'', PStr ''alice'')]\<rparr>
   \<and> deref (call_method 0 UpdateDictMixin_clear (snd (get_session \<lparr>serialize = (\<lambda>k n d. ''signed''),
       deserialize = (\<lambda>k n t m. Some [(''user'', PStr ''alice'')])\<rparr> None DEFAULT_VALUE SecureCookieSessionFactory
 \<lparr>request = \<lparr>cookies = [(''session'', ''token'')], app_config = []\<rparr>,
          config = \<lparr>secret_key = Some ''secret'', cookie_name = ''session'',
                    session_max_age = None, cookie_args = [(''path'', PStr ''/'')]\<rparr>,
          sessions = [], serializer_cache = None, heap = []\<rparr>))) 0 =
       Some \<lparr>container = ''session'', new = False, modified = True, items = []\<rparr>
   \<and> fst (save_sessions \<lparr>serialize = (\<lambda>k n d. ''signed''),
       deserialize = (\<lambda>k n t m. Some [(''user'', PStr ''alice'')])\<rparr> [] (call_method 0 UpdateDictMixin_clear (snd (get_session \<lparr>serialize = (\<lambda>k n d. ''signed''),
       deserialize = (\<lambda>k n t m. Some [(''user'', PStr ''alice'')])\<rparr> None DEFAULT_VALUE SecureCookieSessionFactory
 \<lparr>request = \<lparr>cookies = [(''session'', ''token'')], app_config = []\<rparr>,
          config = \<lparr>secret_key = Some ''secret'', cookie_name = ''session'',
                    session_max_age = None, cookie_args = [(''path'', PStr ''/'')]\<rparr>,
          sessions = [], serializer_cache = None, heap = []\<rparr>)))) = Inr ()
   \<and> snd (snd (save_sessions \<lparr>serialize = (\<lambda>k n d. ''signed''),
       deserialize = (\<lambda>k n t m. Some [(''user'', PStr ''alice'')])\<rparr> [] (call_method 0 UpdateDictMixin_clear (snd (get_session \<lparr>serialize = (\<lambda>k n d. ''signed''),
       deserialize = (\<lambda>k n t m. Some [(''user'', PStr ''alice'')])\<rparr> None DEFAULT_VALUE SecureCookieSessionFactory
 \<lparr>request = \<lparr>cookies = [(''session'', ''token'')], app_config = []\<rparr>,
          config = \<lparr>secret_key = Some ''secret'', cookie_name = ''session'',
                    session_max_age = None, cookie_args = [(''path'', PStr ''/'')]\<rparr>,
          sessions = [], serializer_cache = None, heap = []\<rparr>))))) = []
   \<and> snd (snd (save_sessions \<lparr>serialize = (\<lambda>k n d. ''signed''),
       deserialize = (\<lambda>k n t m. Some [(''user'', PStr ''alice'')])\<rparr> []
         (call_method 0 (UpdateDictMixin_setitem ''user'' (PStr ''bob'')) (snd (get_session \<lparr>serialize = (\<lambda>k n d. ''signed''),
       deserialize = (\<lambda>k n t m. Some [(''user'', PStr ''alice'')])\<rparr> None DEFAULT_VALUE SecureCookieSessionFactory
 \<lparr>request = \<lparr>cookies = [(''session'', ''token'')], app_config = []\<rparr>,
          config = \<lparr>secret_key = Some ''secret'', cookie_name = ''session'',
                    session_max_age = None, cookie_args = [(''path'', PStr ''/'')]\<rparr>,
          sessions = [], serializer_cache = None, heap = []\<rparr>))))) =
       [(''session'', ''signed'', [(''path'', PStr ''/'')])]"
  by (simp add: store_defs session_dict_defs Let_def)

section \<open>The addresses held by the factories are allocated\<close>

text \<open>
  A new store holds no address, and \<open>get_session\<close>, \<open>set_secure_cookie\<close> and the
  method calls of a handler keep every address held by a factory inside the heap; the
  address \<open>get_session\<close> returns is one of them.
\<close>

lemma list_all_map_of:
  "list_all P xs \<Longrightarrow> map_of xs k = Some v \<Longrightarrow> P (k, v)"
  by (induction xs) (auto split: if_splits)

lemma sessions_allocated_init:
  "SessionStore_init req = Inr st \<Longrightarrow> sessions_allocated st"
  by (auto simp: SessionStore_init_def sessions_allocated_def split: option.splits)

lemma sessions_allocated_deref:
  assumes "sessions_allocated st" and "map_of (sessions st) n = Some c" and "session c = Some a"
  shows "deref st a = Some (heap st ! a)"
proof -
  have "case session (snd (n, c)) of None \<Rightarrow> True | Some a \<Rightarrow> a < length (heap st)"
    using assms(1,2) unfolding sessions_allocated_def by (rule list_all_map_of)
  then show ?thesis
    using assms(3) by (simp add: deref_def)
qed

lemma sessions_allocated_grow:
  assumes "sessions_allocated st" and "sessions st' = sessions st"
    and "length (heap st) \<le> length (heap st')"
  shows "sessions_allocated st'"
  using assms
  unfolding sessions_allocated_def list_all_iff
  by (auto split: option.splits)

lemma set_update_subset: "set (AList.update k v xs) \<subseteq> insert (k, v) (set xs)"
  by (induction xs) auto

lemma sessions_allocated_bind:
  assumes "sessions_allocated st"
    and "case session c of None \<Rightarrow> True | Some a \<Rightarrow> a < length (heap st)"
  shows "sessions_allocated (st\<lparr>sessions := AList.update n c (sessions st)\<rparr>)"
  using assms set_update_subset [of n c "sessions st"]
  unfolding sessions_allocated_def list_all_iff
  by (auto split: option.splits)

lemma get_secure_cookie_allocated:
  "sessions_allocated st \<Longrightarrow> sessions_allocated (snd (get_secure_cookie sc nm ma st))"
  by (rule sessions_allocated_grow [of st])
    (simp_all add: get_secure_cookie_sessions_same get_secure_cookie_heap)

lemma get_session_container_allocated:
  assumes "sessions_allocated st" and "get_session_container n fac st = (c, st1)"
  shows "sessions_allocated st1"
    and "case session c of None \<Rightarrow> True | Some a \<Rightarrow> a < length (heap st1)"
proof -
  show "sessions_allocated st1"
  proof (cases "map_of (sessions st) n")
    case None
    then have "st1 = st\<lparr>sessions := AList.update n (BaseSessionFactory_init fac n st) (sessions st)\<rparr>"
      using assms(2) by (auto simp: get_session_container_def Let_def)
    then show ?thesis
      using assms(1) by (simp add: sessions_allocated_bind BaseSessionFactory_init_def)
  next
    case (Some x)
    then show ?thesis
      using assms by (simp add: get_session_container_def)
  qed
  show "case session c of None \<Rightarrow> True | Some a \<Rightarrow> a < length (heap st1)"
  proof (cases "map_of (sessions st) n")
    case None
    then show ?thesis
      using assms(2) by (auto simp: get_session_container_def Let_def BaseSessionFactory_init_def)
  next
    case (Some x)
    then have e: "c = x" "st1 = st"
      using assms(2) by (simp_all add: get_session_container_def)
    have "case session (snd (n, x)) of None \<Rightarrow> True | Some a \<Rightarrow> a < length (heap st)"
      using assms(1) Some unfolding sessions_allocated_def by (rule list_all_map_of)
    then show ?thesis by (auto simp: e split: option.splits)
  qed
qed

lemma factory_get_session_allocated:
  assumes "sessions_allocated st"
    and "case session c of None \<Rightarrow> True | Some a \<Rightarrow> a < length (heap st)"
    and "factory_get_session sc ma c st = (r, c', st')"
  shows "sessions_allocated st'"
    and "case session c' of None \<Rightarrow> True | Some a \<Rightarrow> a < length (heap st')"
    and "case r of Inl e \<Rightarrow> True | Inr a \<Rightarrow> a < length (heap st')"
proof -
  have g: "sessions_allocated (snd (get_secure_cookie sc (name c) ma st))"
    using assms(1) by (rule get_secure_cookie_allocated)
  have h: "heap (snd (get_secure_cookie sc (name c) ma st)) = heap st"
    by (rule get_secure_cookie_heap)
  have s: "sessions (snd (get_secure_cookie sc (name c) ma st)) = sessions st"
    by (rule get_secure_cookie_sessions_same)
  have "sessions st' = sessions st \<and> length (heap st) \<le> length (heap st')"
    using assms(3) h s
    by (auto simp: factory_get_session_def SecureCookieSessionFactory_get_session_def
        CustomBackendSessionFactory_get_session_def Let_def
        split: factory.splits option.splits prod.splits sum.splits)
  then show "sessions_allocated st'"
    using assms(1) by (simp add: sessions_allocated_grow [of st])
  show "case session c' of None \<Rightarrow> True | Some a \<Rightarrow> a < length (heap st')"
    using assms(2,3) h
    by (auto simp: factory_get_session_def SecureCookieSessionFactory_get_session_def
        CustomBackendSessionFactory_get_session_def Let_def
        split: factory.splits option.splits prod.splits sum.splits)
  show "case r of Inl e \<Rightarrow> True | Inr a \<Rightarrow> a < length (heap st')"
    using assms(2,3) h
    by (auto simp: factory_get_session_def SecureCookieSessionFactory_get_session_def
        CustomBackendSessionFactory_get_session_def Let_def
        split: factory.splits option.splits prod.splits sum.splits)
qed

lemma get_session_allocated:
  assumes a: "sessions_allocated st"
  shows "sessions_allocated (snd (get_session sc nm ma fac st))"
    and "case fst (get_session sc nm ma fac st) of Inl e \<Rightarrow> True
         | Inr a \<Rightarrow> deref (snd (get_session sc nm ma fac st)) a \<noteq> None"
proof -
  define n where "n = (case nm of None \<Rightarrow> cookie_name (config st)
                   | Some x \<Rightarrow> if x = [] then cookie_name (config st) else x)"
  define ma' where "ma' = (case ma of DEFAULT_VALUE \<Rightarrow> MaxAge (session_max_age (config st))
                           | MaxAge m \<Rightarrow> MaxAge m)"
  obtain c st1 where gc: "get_session_container n fac st = (c, st1)"
    by (cases "get_session_container n fac st")
  obtain r c' st2 where fg: "factory_get_session sc ma' c st1 = (r, c', st2)"
    by (cases "factory_get_session sc ma' c st1")
  have g: "get_session sc nm ma fac st = (r, st2\<lparr>sessions := AList.update n c' (sessions st2)\<rparr>)"
    using gc fg by (simp add: get_session_def n_def [symmetric] ma'_def [symmetric])
  have a1: "sessions_allocated st1"
    using a gc by (rule get_session_container_allocated)
  have c1: "case session c of None \<Rightarrow> True | Some a \<Rightarrow> a < length (heap st1)"
    using a gc by (rule get_session_container_allocated)
  have a2: "sessions_allocated st2"
    using a1 c1 fg by (rule factory_get_session_allocated)
  have c2: "case session c' of None \<Rightarrow> True | Some a \<Rightarrow> a < length (heap st2)"
    using a1 c1 fg by (rule factory_get_session_allocated)
  have r2: "case r of Inl e \<Rightarrow> True | Inr a \<Rightarrow> a < length (heap st2)"
    using a1 c1 fg by (rule factory_get_session_allocated)
  show "sessions_allocated (snd (get_session sc nm ma fac st))"
    using a2 c2 by (simp add: g sessions_allocated_bind)
  show "case fst (get_session sc nm ma fac st) of Inl e \<Rightarrow> True
         | Inr a \<Rightarrow> deref (snd (get_session sc nm ma fac st)) a \<noteq> None"
    using r2 by (simp add: g deref_def split: sum.splits)
qed

lemma call_method_allocated:
  "sessions_allocated st \<Longrightarrow> sessions_allocated (call_method a m st)"
  by (rule sessions_allocated_grow [of st]) (simp_all add: call_method_def split: option.splits)

lemma set_secure_cookie_allocated:
  assumes a: "sessions_allocated st"
  shows "sessions_allocated (snd (set_secure_cookie sc nm v kwargs st))"
proof (cases "case v of PDict d \<Rightarrow> False | _ \<Rightarrow> True")
  case True
  then show ?thesis using a by (simp add: set_secure_cookie_not_dict)
next
  case False
  then obtain d where v: "v = PDict d" by (cases v) simp_all
  obtain c st1 where gc: "get_session_container nm SecureCookieSessionFactory st = (c, st1)"
    by (cases "get_session_container nm SecureCookieSessionFactory st")
  obtain r c' st2 where fg: "factory_get_session sc DEFAULT_VALUE c st1 = (r, c', st2)"
    by (cases "factory_get_session sc DEFAULT_VALUE c st1")
  have a1: "sessions_allocated st1"
    using a gc by (rule get_session_container_allocated)
  have c1: "case session c of None \<Rightarrow> True | Some a \<Rightarrow> a < length (heap st1)"
    using a gc by (rule get_session_container_allocated)
  have a2: "sessions_allocated st2"
    using a1 c1 fg by (rule factory_get_session_allocated)
  have c2: "case session c' of None \<Rightarrow> True | Some a \<Rightarrow> a < length (heap st2)"
    using a1 c1 fg by (rule factory_get_session_allocated)
  have b: "sessions_allocated (st2\<lparr>sessions := AList.update nm x (sessions st2)\<rparr>)"
    if "session x = session c'" for x
    using a2 c2 that by (simp add: sessions_allocated_bind)
  show ?thesis
  proof (cases r)
    case (Inl e)
    then show ?thesis
      using b [of c'] by (simp add: v set_secure_cookie_def gc fg)
  next
    case (Inr x)
    have "sessions_allocated
        (st2\<lparr>sessions := AList.update nm
                 (c'\<lparr>session_args := dict_merge kwargs (session_args c')\<rparr>) (sessions st2)\<rparr>)"
      by (rule b) simp
    then have "sessions_allocated
        (st2\<lparr>sessions := AList.update nm
                 (c'\<lparr>session_args := dict_merge kwargs (session_args c')\<rparr>) (sessions st2),
             heap := (case deref st2 x of None \<Rightarrow> heap st2
                      | Some s \<Rightarrow> (heap st2)[x := snd (UpdateDictMixin_update d s)])\<rparr>)"
      by (rule sessions_allocated_grow) (simp_all split: option.splits)
    then show ?thesis
      by (simp add: v set_secure_cookie_def gc fg Inr)
  qed
qed

section \<open>The max-age of a call\<close>



lemma get_secure_cookie_no_cookie:
  "map_of (cookies (request st)) cn = None \<or> map_of (cookies (request st)) cn = Some [] \<Longrightarrow>
   get_secure_cookie sc cn ma st = (Inr None, st)"
  by (auto simp: get_secure_cookie_def)








end
